theory Spec2Isabelle
  imports Complex_Main
begin

section \<open>JavaScript arithmetic used by the timer\<close>

text \<open>
  \<open>Date.now()\<close> is an integral number of milliseconds, and every value the scheduler version
  of the app (\<open>App.tsx\<close>) computes from it is an integer far below \<open>2^53\<close>, so those numbers
  are modelled as \<open>int\<close>.  \<open>Math.floor (a / b)\<close> for a positive \<open>b\<close> is \<open>a div b\<close>
  (HOL's \<open>div\<close> on \<open>int\<close> rounds towards minus infinity).  The remainder operator \<open>%\<close>
  of JavaScript truncates: its result has the sign of the dividend.
\<close>

definition js_rem :: "int \<Rightarrow> int \<Rightarrow> int" where
  "js_rem a b = (if 0 \<le> a then a mod \<bar>b\<bar> else - ((- a) mod \<bar>b\<bar>))"

section \<open>The scheduler version of the app (\<open>App.tsx\<close>)\<close>

subsection \<open>State and effects\<close>

text \<open>
  The React state of \<open>App\<close> and its two refs.  \<open>timeoutRef\<close> holds the pending timeout; the
  model stores the delay it was scheduled with.
\<close>

record app =
  isTimerActive :: bool
  notificationId :: "string option"
  customDuration :: string
  trainingDuration :: int
  showConfetti :: bool
  isPausePrompt :: bool
  startTime :: "int option"
  pausedTime :: int
  pauseStartTime :: "int option"
  timeRemaining :: int
  timeoutRef :: "int option"
  lastTickRef :: "int option"

text \<open>The bodies of the notifications the app sends, and the calls it makes to its collaborators.\<close>

datatype message =
    GreatStart
  | HalfwayFirstInterval
  | HalfwaySession int
  | AlmostThere
  | KeepGoing int

datatype notification =
    TrainingStarted int
  | IntervalReminder message
  | TrainingComplete int

datatype effect =
    AlertInvalidDuration
  | KeyboardDismiss
  | ScheduleNotification notification
  | DismissNotification string

text \<open>The initial values of the \<open>useState\<close> and \<open>useRef\<close> calls.\<close>

definition app_init :: app where
  "app_init = \<lparr> isTimerActive = False, notificationId = None, customDuration = ''30'',
     trainingDuration = 30 * 60, showConfetti = False, isPausePrompt = False,
     startTime = None, pausedTime = 0, pauseStartTime = None, timeRemaining = 30 * 60,
     timeoutRef = None, lastTickRef = None \<rparr>"

subsection \<open>Derived countdown of the current three-minute interval\<close>

definition elapsedSeconds :: "app \<Rightarrow> int" where
  "elapsedSeconds st = trainingDuration st - timeRemaining st"

definition currentIntervalRemaining :: "app \<Rightarrow> int" where
  "currentIntervalRemaining st =
     (if timeRemaining st = 0 then 0
      else if js_rem (elapsedSeconds st) 180 = 0 then 180
      else 180 - js_rem (elapsedSeconds st) 180)"

definition currentIntervalIndex :: "app \<Rightarrow> int" where
  "currentIntervalIndex st = elapsedSeconds st div 180 + 1"

subsection \<open>Notifications\<close>

definition sendIntervalNotification :: "app \<Rightarrow> int \<Rightarrow> notification" where
  "sendIntervalNotification st elapsed =
     (let minutes = elapsed div 60;
          totalMinutes = trainingDuration st div 60
      in IntervalReminder
          (if minutes = 3 then GreatStart
           else if minutes = 6 then HalfwayFirstInterval
           else if minutes = totalMinutes div 2 then HalfwaySession totalMinutes
           else if minutes = totalMinutes - 3 then AlmostThere
           else KeepGoing minutes))"

definition handleTimerComplete :: "app \<Rightarrow> app \<times> effect list" where
  "handleTimerComplete st =
     (st\<lparr> isTimerActive := False, timeoutRef := None, startTime := None, pausedTime := 0,
          pauseStartTime := None, timeRemaining := trainingDuration st, lastTickRef := None,
          showConfetti := True \<rparr>,
      [ScheduleNotification (TrainingComplete (trainingDuration st div 60))])"

subsection \<open>The self-rescheduling tick\<close>

text \<open>
  \<open>!startTime\<close> holds for \<open>null\<close> and for the number \<open>0\<close>.  The parameter \<open>now\<close> is the
  reading of \<open>Date.now()\<close> the tick takes.
\<close>

definition falsy :: "int option \<Rightarrow> bool" where
  "falsy v = (case v of None \<Rightarrow> True | Some n \<Rightarrow> n = 0)"

definition totalElapsedMs :: "app \<Rightarrow> int \<Rightarrow> int" where
  "totalElapsedMs st now = now - the (startTime st) - pausedTime st"

definition totalElapsedSeconds :: "app \<Rightarrow> int \<Rightarrow> int" where
  "totalElapsedSeconds st now = totalElapsedMs st now div 1000"

definition targetTime :: "app \<Rightarrow> int \<Rightarrow> int" where
  "targetTime st now =
     the (startTime st) + pausedTime st + (totalElapsedSeconds st now + 1) * 1000"

definition intervalNotifications :: "app \<Rightarrow> int \<Rightarrow> effect list" where
  "intervalNotifications st now =
     (let secs = totalElapsedSeconds st now in
      if 0 < secs \<and> js_rem secs 180 = 0 then
        (let currentInterval = secs div 180;
             previousElapsedSeconds = (totalElapsedMs st now - 100) div 1000;
             previousInterval = previousElapsedSeconds div 180
         in if previousInterval < currentInterval
            then [ScheduleNotification (sendIntervalNotification st secs)] else [])
      else [])"

definition tick :: "app \<Rightarrow> int \<Rightarrow> app \<times> effect list" where
  "tick st now =
     (if \<not> isTimerActive st \<or> falsy (startTime st) then (st, [])
      else
        let newTimeRemaining = max 0 (trainingDuration st - totalElapsedSeconds st now);
            st1 = st\<lparr> timeRemaining := newTimeRemaining \<rparr>
        in if newTimeRemaining = 0 then handleTimerComplete st1
           else
             let delay0 = targetTime st now - now;
                 delay = (if delay0 < 0 then 1 else delay0)
             in (st1\<lparr> lastTickRef := Some now, timeoutRef := Some delay \<rparr>,
                 intervalNotifications st now))"

subsection \<open>Choosing a duration and starting\<close>

text \<open>
  \<open>parseInt\<close> with no radix: leading white space is skipped, one sign is read, a \<open>0x\<close> or
  \<open>0X\<close> prefix selects radix 16, and the longest prefix of digits is the value; with no digit
  the result is \<open>NaN\<close>, here \<open>None\<close>.  (A \<open>char\<close> is one byte, so the white space of
  JavaScript beyond Latin-1 is not covered; a very long digit string is rounded to a double by
  JavaScript and is exact here.)
\<close>

definition isWhiteSpace :: "char \<Rightarrow> bool" where
  "isWhiteSpace c = (c \<in> set [CHR 0x09, CHR 0x0A, CHR 0x0B, CHR 0x0C, CHR 0x0D, CHR 0x20, CHR 0xA0])"

definition digitValue :: "nat \<Rightarrow> char \<Rightarrow> nat option" where
  "digitValue radix c =
     (let n = (of_char c :: nat);
          v = (if 48 \<le> n \<and> n \<le> 57 then Some (n - 48)
               else if 97 \<le> n \<and> n \<le> 102 then Some (n - 87)
               else if 65 \<le> n \<and> n \<le> 70 then Some (n - 55)
               else None)
      in case v of None \<Rightarrow> None | Some d \<Rightarrow> if d < radix then Some d else None)"

fun digitsValue :: "nat \<Rightarrow> nat \<Rightarrow> string \<Rightarrow> nat" where
  "digitsValue radix acc [] = acc"
| "digitsValue radix acc (c # cs) =
     (case digitValue radix c of
        None \<Rightarrow> acc
      | Some d \<Rightarrow> digitsValue radix (acc * radix + d) cs)"

definition parseDigits :: "nat \<Rightarrow> string \<Rightarrow> nat option" where
  "parseDigits radix s =
     (case s of
        [] \<Rightarrow> None
      | c # cs \<Rightarrow> (case digitValue radix c of
                     None \<Rightarrow> None
                   | Some d \<Rightarrow> Some (digitsValue radix 0 s)))"

definition parseInt :: "string \<Rightarrow> int option" where
  "parseInt input =
     (let s = dropWhile isWhiteSpace input;
          negative = (s \<noteq> [] \<and> hd s = CHR ''-'');
          s1 = (if s \<noteq> [] \<and> (hd s = CHR ''-'' \<or> hd s = CHR ''+'') then tl s else s);
          hex = (take 2 s1 = ''0x'' \<or> take 2 s1 = ''0X'');
          magnitude = (if hex then parseDigits 16 (drop 2 s1) else parseDigits 10 s1)
      in case magnitude of
           None \<Rightarrow> None
         | Some n \<Rightarrow> Some (if negative then - int n else int n))"

text \<open>
  \<open>setPresetDuration\<close> stores \<open>parseInt(minutes) * 60\<close>.  Its three call sites pass
  \<open>"15"\<close>, \<open>"30"\<close> and \<open>"60"\<close>; for a string \<open>parseInt\<close> rejects the product is \<open>NaN\<close>,
  which the integer field does not represent, and the model returns \<open>None\<close>.
\<close>

definition setPresetDuration :: "app \<Rightarrow> string \<Rightarrow> app option" where
  "setPresetDuration st minutes =
     (case parseInt minutes of
        None \<Rightarrow> None
      | Some n \<Rightarrow> Some (st\<lparr> customDuration := minutes, trainingDuration := n * 60 \<rparr>))"

text \<open>
  \<open>startTimer\<close> reads \<open>Date.now()\<close> (\<open>now\<close>) and receives from the notification service
  the identifier of the notification it scheduled (\<open>nid\<close>).
\<close>

definition startTimer :: "app \<Rightarrow> int \<Rightarrow> string \<Rightarrow> app \<times> effect list" where
  "startTimer st now nid =
     (case parseInt (customDuration st) of
        None \<Rightarrow> (st, [AlertInvalidDuration])
      | Some duration \<Rightarrow>
          if duration < 5 \<or> duration > 120 then (st, [AlertInvalidDuration])
          else
            let durationSeconds = duration * 60
            in (st\<lparr> trainingDuration := durationSeconds, timeRemaining := durationSeconds,
                    startTime := Some now, pausedTime := 0, pauseStartTime := None,
                    timeoutRef := None, isTimerActive := True, notificationId := Some nid \<rparr>,
                [KeyboardDismiss, ScheduleNotification (TrainingStarted duration)]))"

subsection \<open>Pause, resume and end\<close>

text \<open>
  A handler is a closure of the render that created it: a state variable it reads directly
  has the value of that render, while a functional updater \<open>(prev) => \<dots>\<close> receives the
  live value.  \<open>continueTraining\<close> reads \<open>pauseStartTime\<close> directly, in its guard and in
  the time paused, and adds to \<open>pausedTime\<close> through an updater.  It therefore takes the
  state \<open>r\<close> of the render whose closure is called and the live state \<open>st\<close>; the two differ
  when the handler is called again before the next render.  \<open>stopTimer\<close> reads no state.
  The other handlers of this version are modelled at a call from the latest render.
\<close>

definition stopTimer :: "app \<Rightarrow> int \<Rightarrow> app" where
  "stopTimer st now =
     st\<lparr> isTimerActive := False, isPausePrompt := True, pauseStartTime := Some now,
         timeoutRef := None \<rparr>"

definition continueTraining :: "app \<Rightarrow> app \<Rightarrow> int \<Rightarrow> app" where
  "continueTraining r st now =
     (let st1 = st\<lparr> isPausePrompt := False \<rparr>;
          st2 = (case pauseStartTime r of
                   None \<Rightarrow> st1
                 | Some p \<Rightarrow> st1\<lparr> pausedTime := pausedTime st + (now - p),
                                  pauseStartTime := None \<rparr>)
      in st2\<lparr> isTimerActive := True \<rparr>)"

definition endTraining :: "app \<Rightarrow> app \<times> effect list" where
  "endTraining st =
     (let st1 = st\<lparr> isPausePrompt := False, isTimerActive := False, timeoutRef := None,
                    startTime := None, pausedTime := 0, pauseStartTime := None,
                    timeRemaining := trainingDuration st, lastTickRef := None \<rparr>
      in case notificationId st of
           None \<Rightarrow> (st1, [])
         | Some nid \<Rightarrow> if nid = [] then (st1, [])
                       else (st1\<lparr> notificationId := None \<rparr>, [DismissNotification nid]))"

subsection \<open>The lifecycle effect\<close>

text \<open>
  The effect that manages the timer depends on \<open>isTimerActive\<close>, \<open>startTime\<close>, \<open>tick\<close> and
  \<open>timeRemaining\<close>; \<open>tick\<close> is a new callback whenever \<open>isTimerActive\<close>, \<open>startTime\<close>,
  \<open>pausedTime\<close> or \<open>trainingDuration\<close> changed.  When a render finds one of them changed,
  the cleanup of the previous run clears the pending timeout and the effect runs again: it
  calls \<open>tick\<close> at once if the timer is active with time remaining, and clears the timeout
  otherwise.  (The effect reads \<open>Date.now()\<close> for \<open>lastTickRef\<close> and \<open>tick\<close> reads it
  again; both readings are the one parameter \<open>now\<close>.)
\<close>

definition dependenciesChanged :: "app \<Rightarrow> app \<Rightarrow> bool" where
  "dependenciesChanged old new =
     (isTimerActive new \<noteq> isTimerActive old \<or> startTime new \<noteq> startTime old
      \<or> pausedTime new \<noteq> pausedTime old \<or> trainingDuration new \<noteq> trainingDuration old
      \<or> timeRemaining new \<noteq> timeRemaining old)"

definition lifecycleCleanup :: "app \<Rightarrow> app" where
  "lifecycleCleanup st = st\<lparr> timeoutRef := None \<rparr>"

definition lifecycleEffect :: "app \<Rightarrow> int \<Rightarrow> app \<times> effect list" where
  "lifecycleEffect st now =
     (if isTimerActive st \<and> \<not> falsy (startTime st) \<and> 0 < timeRemaining st
      then tick (st\<lparr> lastTickRef := Some now \<rparr>) now
      else (st\<lparr> timeoutRef := None \<rparr>, []))"

text \<open>
  One firing of the pending timeout: \<open>tick\<close> runs at the reading \<open>fired\<close>; if it changed a
  dependency of the effect, the render that follows runs the cleanup and the effect at the
  reading \<open>rerun\<close>.
\<close>

definition timeoutCycle :: "app \<Rightarrow> int \<Rightarrow> int \<Rightarrow> app \<times> effect list" where
  "timeoutCycle st fired rerun =
     (let r1 = tick st fired
      in if dependenciesChanged st (fst r1)
         then (let r2 = lifecycleEffect (lifecycleCleanup (fst r1)) rerun
               in (fst r2, snd r1 @ snd r2))
         else r1)"

subsection \<open>The boundary contract in the words of the specification\<close>

text \<open>
  The specification's boundary notifier: a boundary index \<open>k\<close> is crossed when
  \<open>currentElapsedSeconds \<ge> k * interval\<close> and \<open>k * interval > lastNotifiedBoundary\<close>, and all
  such \<open>k\<close> are emitted in ascending order.  This definition follows the specification, not
  the code, and is what the tick is compared with.
\<close>

definition spec_crossed_boundaries :: "int \<Rightarrow> int \<Rightarrow> int \<Rightarrow> int list" where
  "spec_crossed_boundaries interval lastNotifiedBoundary currentElapsedSeconds =
     filter (\<lambda>k. lastNotifiedBoundary < k * interval) [1 .. currentElapsedSeconds div interval]"

subsection \<open>Concrete sessions\<close>

text \<open>A thirty-minute session started at the clock reading \<open>5000000\<close>.\<close>

definition session30 :: app where
  "session30 = fst (startTimer app_init 5000000 ''n1'')"

text \<open>The idle screen after the \<open>15m\<close> preset button was pressed.\<close>

definition preset15 :: app where
  "preset15 = app_init\<lparr> customDuration := ''15'', trainingDuration := 900 \<rparr>"

text \<open>The same session after a first tick one second in.\<close>

definition delayed_session :: app where
  "delayed_session = fst (tick session30 5001000)"

text \<open>
  A thirty-minute session started at 5000321, paused at 5060000 and resumed at 5064567 from
  the render of the paused state.
\<close>

definition resumed30 :: app where
  "resumed30 =
     continueTraining
       (stopTimer (fst (startTimer app_init 5000321 ''n1'')) 5060000)
       (stopTimer (fst (startTimer app_init 5000321 ''n1'')) 5060000)
       5064567"

section \<open>The render-synchronised version (\<open>TimerDisplay\<close> and the app that wires it)\<close>

text \<open>
  This version reads \<open>performance.now()\<close>, a number of milliseconds with a fractional part.
  Its numbers are modelled as \<open>real\<close>: the rounding of IEEE doubles is not modelled.
\<close>

subsection \<open>The key-value store\<close>

text \<open>
  The store behind \<open>useMMKVNumber\<close>.  A key holds a number or something that does not read
  as one.  The hook returns \<open>undefined\<close> for an absent key; setting \<open>undefined\<close> deletes the
  key.  The module that creates \<open>storage\<close> is not among the sources; the store is the state
  component \<open>storage\<close> below.
\<close>

datatype stored = Num real | NotANumber

type_synonym mmkv = "string \<rightharpoonup> stored"

definition getNumber :: "mmkv \<Rightarrow> string \<Rightarrow> real option" where
  "getNumber m k = (case m k of Some (Num x) \<Rightarrow> Some x | _ \<Rightarrow> None)"

definition setNumber :: "mmkv \<Rightarrow> string \<Rightarrow> real option \<Rightarrow> mmkv" where
  "setNumber m k v = (case v of None \<Rightarrow> m(k := None) | Some x \<Rightarrow> m(k \<mapsto> Num x))"

definition clearAll :: "mmkv \<Rightarrow> mmkv" where
  "clearAll m = Map.empty"

subsection \<open>The app state\<close>

text \<open>
  The fields carry the suffix \<open>_m\<close> where the scheduler version has a field of the same
  name.  \<open>accumulatedMs\<close> and \<open>startMonoMs\<close> live in the store.
\<close>

record app_m =
  isTimerActive_m :: bool
  trainingDuration_m :: real
  showConfetti_m :: bool
  isRunning_m :: bool
  durationMs_m :: real
  storage :: mmkv

definition accumulatedMs_m :: "app_m \<Rightarrow> real option" where
  "accumulatedMs_m st = getNumber (storage st) ''accumulatedMs''"

definition startMonoMs_m :: "app_m \<Rightarrow> real option" where
  "startMonoMs_m st = getNumber (storage st) ''startMonoMs''"

definition setAccumulatedMs :: "real option \<Rightarrow> app_m \<Rightarrow> app_m" where
  "setAccumulatedMs v st = st\<lparr> storage := setNumber (storage st) ''accumulatedMs'' v \<rparr>"

definition setStartMonoMs :: "real option \<Rightarrow> app_m \<Rightarrow> app_m" where
  "setStartMonoMs v st = st\<lparr> storage := setNumber (storage st) ''startMonoMs'' v \<rparr>"

text \<open>
  The first render over the store the process finds, and the effect run once on app start,
  which empties the store.
\<close>

definition initialRender :: "mmkv \<Rightarrow> app_m" where
  "initialRender store = \<lparr> isTimerActive_m = False, trainingDuration_m = 30 * 60,
     showConfetti_m = False, isRunning_m = False, durationMs_m = 30 * 60 * 1000,
     storage = store \<rparr>"

definition onAppStart :: "app_m \<Rightarrow> app_m" where
  "onAppStart st = st\<lparr> storage := clearAll (storage st) \<rparr>"

definition startup :: "mmkv \<Rightarrow> app_m" where
  "startup store = onAppStart (initialRender store)"

definition setPresetDuration_m :: "app_m \<Rightarrow> real \<Rightarrow> app_m" where
  "setPresetDuration_m st seconds =
     st\<lparr> trainingDuration_m := seconds, durationMs_m := seconds * 1000 \<rparr>"

definition startTimer_m :: "app_m \<Rightarrow> real \<Rightarrow> app_m" where
  "startTimer_m st now =
     (setStartMonoMs (Some now)
       (setAccumulatedMs (Some 0)
         (st\<lparr> isTimerActive_m := True \<rparr>)))
       \<lparr> durationMs_m := trainingDuration_m st * 1000, isRunning_m := True \<rparr>"

text \<open>
  \<open>stopTimer\<close> reads \<open>startMonoMs\<close> directly, in its guard and in the length of the
  segment: that is the value of the render whose closure is called, \<open>r\<close>.  The updater of
  \<open>accumulatedMs\<close> receives the live value, read from the store of the live state \<open>st\<close>.
  \<open>continueTraining\<close> reads no state.  \<open>startTimer\<close> reads \<open>trainingDuration\<close> directly
  and is modelled at a call from the latest render.
\<close>

definition stopTimer_m :: "app_m \<Rightarrow> app_m \<Rightarrow> real \<Rightarrow> app_m" where
  "stopTimer_m r st now =
     (let st1 = st\<lparr> isRunning_m := False \<rparr>
      in case startMonoMs_m r of
           None \<Rightarrow> st1
         | Some t0 \<Rightarrow>
             setStartMonoMs None
               (setAccumulatedMs
                  (Some ((case accumulatedMs_m st of None \<Rightarrow> 0 | Some prev \<Rightarrow> prev) + (now - t0)))
                  st1))"

definition continueTraining_m :: "app_m \<Rightarrow> real \<Rightarrow> app_m" where
  "continueTraining_m st now = (setStartMonoMs (Some now) st)\<lparr> isRunning_m := True \<rparr>"

definition endTraining_m :: "app_m \<Rightarrow> app_m" where
  "endTraining_m st =
     setStartMonoMs None
       (setAccumulatedMs (Some 0) (st\<lparr> isTimerActive_m := False, isRunning_m := False \<rparr>))"

text \<open>The callback the app passes to \<open>TimerDisplay\<close> as \<open>onDone\<close>.\<close>

definition onDone_m :: "app_m \<Rightarrow> app_m" where
  "onDone_m st = st\<lparr> isRunning_m := False, isTimerActive_m := False, showConfetti_m := True \<rparr>"

subsection \<open>\<open>TimerDisplay\<close>: props, shared values, effects and the frame callback\<close>

record 'cb props =
  durationMs :: real
  accumulatedMs :: real
  isRunning :: bool
  startMonoMs :: "real option"
  onDone :: "'cb option"
  showRemaining :: bool

record shared =
  baseElapsedSV :: real
  startMonoSV :: real
  runningSV :: nat
  durationSV :: real
  renderElapsedSV :: real

datatype 'cb scheduled = ScheduleOnRN 'cb

text \<open>The props the app renders \<open>TimerDisplay\<close> with; \<open>showRemaining\<close> takes its default.\<close>

datatype callback = OnDone

definition timerDisplayProps :: "app_m \<Rightarrow> callback props" where
  "timerDisplayProps st = \<lparr> durationMs = durationMs_m st,
     accumulatedMs = (case accumulatedMs_m st of None \<Rightarrow> 0 | Some a \<Rightarrow> a),
     isRunning = isRunning_m st, startMonoMs = startMonoMs_m st, onDone = Some OnDone,
     showRemaining = True \<rparr>"

definition useSharedValues :: "'cb props \<Rightarrow> shared" where
  "useSharedValues p = \<lparr> baseElapsedSV = accumulatedMs p,
     startMonoSV = (case startMonoMs p of None \<Rightarrow> 0 | Some t \<Rightarrow> t),
     runningSV = (if isRunning p then 1 else 0),
     durationSV = durationMs p,
     renderElapsedSV = accumulatedMs p \<rparr>"

definition syncDuration :: "'cb props \<Rightarrow> shared \<Rightarrow> shared" where
  "syncDuration p sv = sv\<lparr> durationSV := durationMs p \<rparr>"

definition syncAnchors :: "'cb props \<Rightarrow> shared \<Rightarrow> shared" where
  "syncAnchors p sv =
     (let sv1 = sv\<lparr> runningSV := (if isRunning p then 1 else 0) \<rparr>
      in case startMonoMs p of
           Some t \<Rightarrow>
             if isRunning p
             then sv1\<lparr> startMonoSV := t, baseElapsedSV := accumulatedMs p,
                       renderElapsedSV := accumulatedMs p \<rparr>
             else sv1\<lparr> baseElapsedSV := accumulatedMs p, renderElapsedSV := accumulatedMs p \<rparr>
         | None \<Rightarrow> sv1\<lparr> baseElapsedSV := accumulatedMs p, renderElapsedSV := accumulatedMs p \<rparr>)"

text \<open>
  The frame callback at the monotonic reading \<open>nowMono\<close>.  It returns the shared values and
  the callbacks it handed to \<open>scheduleOnRN\<close>.
\<close>

definition liveElapsed :: "shared \<Rightarrow> real \<Rightarrow> real" where
  "liveElapsed sv nowMono = baseElapsedSV sv + (nowMono - startMonoSV sv)"

definition frameCallback :: "'cb option \<Rightarrow> shared \<Rightarrow> real \<Rightarrow> shared \<times> 'cb scheduled list" where
  "frameCallback done sv nowMono =
     (if runningSV sv = 0 then (sv, [])
      else
        let elapsed = liveElapsed sv nowMono
        in if durationSV sv \<le> elapsed
           then (sv\<lparr> baseElapsedSV := durationSV sv, renderElapsedSV := durationSV sv,
                     runningSV := 0 \<rparr>,
                 (case done of None \<Rightarrow> [] | Some cb \<Rightarrow> [ScheduleOnRN cb]))
           else (sv\<lparr> renderElapsedSV := elapsed \<rparr>, []))"

text \<open>A run of frames: the final shared values with everything scheduled on the way.\<close>

fun runFrames :: "'cb option \<Rightarrow> shared \<Rightarrow> real list \<Rightarrow> shared \<times> 'cb scheduled list" where
  "runFrames done sv [] = (sv, [])"
| "runFrames done sv (t # ts) =
     (let r1 = frameCallback done sv t;
          r2 = runFrames done (fst r1) ts
      in (fst r2, snd r1 @ snd r2))"

text \<open>The value rendered after each frame of a run.\<close>

fun renderedFrames :: "'cb option \<Rightarrow> shared \<Rightarrow> real list \<Rightarrow> real list" where
  "renderedFrames done sv [] = []"
| "renderedFrames done sv (t # ts) =
     (let sv1 = fst (frameCallback done sv t)
      in renderElapsedSV sv1 # renderedFrames done sv1 ts)"

subsection \<open>The label\<close>

fun decimal :: "nat \<Rightarrow> string" where
  "decimal n =
     (if n < 10 then [char_of (48 + n)] else decimal (n div 10) @ [char_of (48 + n mod 10)])"

definition formatMs :: "real \<Rightarrow> string" where
  "formatMs ms =
     (let clamped = (if ms < 0 then 0 else ms);
          totalSeconds = nat \<lfloor>clamped / 1000\<rfloor>;
          minutes = totalSeconds div 60;
          seconds = totalSeconds mod 60;
          mm = (if minutes < 10 then ''0'' @ decimal minutes else decimal minutes);
          ss = (if seconds < 10 then ''0'' @ decimal seconds else decimal seconds)
      in mm @ '':'' @ ss)"

definition label :: "bool \<Rightarrow> shared \<Rightarrow> string" where
  "label remainingShown sv =
     (let elapsedForRender = renderElapsedSV sv;
          remaining = max 0 (durationSV sv - elapsedForRender)
      in if remainingShown then formatMs remaining else formatMs elapsedForRender)"

subsection \<open>Sequences of operations, and the lifecycle in the words of the specification\<close>

datatype operation = Start real | Pause real | Resume real

text \<open>A call of a handler from the closure of the render \<open>r\<close>, on the live state \<open>st\<close>.\<close>

fun call_m :: "app_m \<Rightarrow> app_m \<Rightarrow> operation \<Rightarrow> app_m" where
  "call_m r st (Start t) = startTimer_m st t"
| "call_m r st (Pause t) = stopTimer_m r st t"
| "call_m r st (Resume t) = continueTraining_m st t"

text \<open>
  What happens to the app: a render, which makes the live state the one the handlers close
  over, or a call of a handler of the last render.  The run keeps the pair of the state of
  the last render and the live state.
\<close>

datatype event = Render | Call operation

fun step_m :: "app_m \<times> app_m \<Rightarrow> event \<Rightarrow> app_m \<times> app_m" where
  "step_m (r, st) Render = (st, st)"
| "step_m (r, st) (Call c) = (r, call_m r st c)"

definition run_m :: "app_m \<Rightarrow> event list \<Rightarrow> app_m" where
  "run_m st es = snd (foldl step_m (st, st) es)"

fun calls :: "event list \<Rightarrow> operation list" where
  "calls [] = []"
| "calls (Render # es) = calls es"
| "calls (Call c # es) = c # calls es"

text \<open>
  Every pause is called from a render made after the call before it.  The flag says whether
  a render was made since the last call.
\<close>

fun pauses_rendered :: "bool \<Rightarrow> event list \<Rightarrow> bool" where
  "pauses_rendered fresh [] = True"
| "pauses_rendered fresh (Render # es) = pauses_rendered True es"
| "pauses_rendered fresh (Call (Pause t) # es) = (fresh \<and> pauses_rendered False es)"
| "pauses_rendered fresh (Call c # es) = pauses_rendered False es"

text \<open>
  The session lifecycle of the specification: \<open>Idle\<close>, \<open>Running\<close> from a segment-start
  instant, \<open>Paused\<close>.  Start leaves \<open>Idle\<close>, pause closes the open running segment, resume
  opens a new one; any other call is a no-op.  The second component lists the completed
  running segments, each as its start and its pause instant.  These definitions follow the
  specification, not the code, and are what the code is compared with.
\<close>

datatype phase = Idle | Running real | Paused

fun spec_step :: "phase \<times> (real \<times> real) list \<Rightarrow> operation \<Rightarrow> phase \<times> (real \<times> real) list" where
  "spec_step (Idle, segs) (Start t) = (Running t, [])"
| "spec_step (Running a, segs) (Pause t) = (Paused, segs @ [(a, t)])"
| "spec_step (Paused, segs) (Resume t) = (Running t, segs)"
| "spec_step s _ = s"

definition spec_run :: "operation list \<Rightarrow> phase \<times> (real \<times> real) list" where
  "spec_run ops = foldl spec_step (Idle, []) ops"

definition segment_total :: "(real \<times> real) list \<Rightarrow> real" where
  "segment_total segs = sum_list (map (\<lambda>(a, b). b - a) segs)"

text \<open>
  The calls the lifecycle has a use for: start when idle, resume when paused, pause at any
  time.
\<close>

fun enabled :: "phase \<Rightarrow> operation \<Rightarrow> bool" where
  "enabled Idle (Start t) = True"
| "enabled Paused (Resume t) = True"
| "enabled ph (Pause t) = True"
| "enabled ph x = False"

fun admissible :: "phase \<times> (real \<times> real) list \<Rightarrow> operation list \<Rightarrow> bool" where
  "admissible s [] = True"
| "admissible s (x # xs) = (enabled (fst s) x \<and> admissible (spec_step s x) xs)"

subsection \<open>Concrete states of this version\<close>

text \<open>A store left behind by a session in progress.\<close>

definition stored_session :: mmkv where
  "stored_session = [''accumulatedMs'' \<mapsto> Num 5000, ''startMonoMs'' \<mapsto> Num 1000]"

text \<open>A thirty-minute session started at the monotonic reading 1000, and its display.\<close>

definition running_m :: app_m where
  "running_m = startTimer_m (startup Map.empty) 1000"

definition running_sv :: shared where
  "running_sv = syncAnchors (timerDisplayProps running_m) (useSharedValues (timerDisplayProps running_m))"

text \<open>That session paused at 61000.\<close>

definition paused_m :: app_m where
  "paused_m = stopTimer_m running_m running_m 61000"

text \<open>That session resumed at 70000, and the display synchronised with it.\<close>

definition resumed_m :: app_m where
  "resumed_m = continueTraining_m paused_m 70000"

definition resumed_sv :: shared where
  "resumed_sv = syncAnchors (timerDisplayProps resumed_m) running_sv"

text \<open>An idle state holding a training duration of one minute.\<close>

definition one_minute_m :: app_m where
  "one_minute_m = setPresetDuration_m (startup Map.empty) 60"

subsection \<open>The relation between the app state and the lifecycle\<close>

text \<open>
  The app state that stands for a lifecycle state with its completed segments: the running
  flag and the stored anchor agree with the phase, and once a session was started the stored
  \<open>accumulatedMs\<close> is the total of the completed segments.
\<close>

fun matches :: "app_m \<Rightarrow> phase \<times> (real \<times> real) list \<Rightarrow> bool" where
  "matches st (Idle, segs) = (\<not> isRunning_m st \<and> startMonoMs_m st = None)"
| "matches st (Running a, segs) =
     (isRunning_m st \<and> startMonoMs_m st = Some a \<and> accumulatedMs_m st = Some (segment_total segs))"
| "matches st (Paused, segs) =
     (\<not> isRunning_m st \<and> startMonoMs_m st = None \<and> accumulatedMs_m st = Some (segment_total segs))"

section \<open>Properties of the scheduler version\<close>

lemma session30_eq:
  "session30 = app_init\<lparr> trainingDuration := 1800, timeRemaining := 1800,
      startTime := Some 5000000, pausedTime := 0, pauseStartTime := None,
      timeoutRef := None, isTimerActive := True, notificationId := Some ''n1'' \<rparr>"
  by (simp add: session30_def startTimer_def app_init_def parseInt_def parseDigits_def
      digitValue_def isWhiteSpace_def Let_def)


lemma js_rem_nonneg: "0 \<le> a \<Longrightarrow> js_rem a 180 = a mod 180"
  by (simp add: js_rem_def)

lemma raw_delay_range:
  "1 \<le> targetTime st now - now \<and> targetTime st now - now \<le> 1000"
proof -
  define e where "e = totalElapsedMs st now"
  have t: "targetTime st now - now = (e div 1000 + 1) * 1000 - e"
    by (simp add: targetTime_def totalElapsedSeconds_def totalElapsedMs_def e_def)
  have "e = e div 1000 * 1000 + e mod 1000" by simp
  then have "(e div 1000 + 1) * 1000 - e = 1000 - e mod 1000"
    by (simp add: algebra_simps)
  moreover have "0 \<le> e mod 1000 \<and> e mod 1000 < 1000" by simp
  ultimately show ?thesis using t by linarith
qed

subsection \<open>The delay of the next tick\<close>

lemma resumed30_eq:
  "resumed30 = app_init\<lparr> trainingDuration := 1800, timeRemaining := 1800,
      startTime := Some 5000321, pausedTime := 4567, pauseStartTime := None,
      timeoutRef := None, isTimerActive := True, notificationId := Some ''n1'',
      isPausePrompt := False \<rparr>"
  by (simp add: resumed30_def continueTraining_def stopTimer_def startTimer_def app_init_def
      parseInt_def parseDigits_def digitValue_def isWhiteSpace_def Let_def)

text \<open>
  Claim C3.  On a tick of a running session started at \<open>t0\<close> that does not complete it,
  the next tick is scheduled after \<open>max 1 (targetInstant - now)\<close> milliseconds, where
  the target instant is \<open>t0 + pausedTime + (totalElapsedSeconds + 1) * 1000\<close> and
  \<open>totalElapsedSeconds\<close> is \<open>floor ((now - t0 - pausedTime) / 1000)\<close>: the target is
  anchored to the start of the session and the time spent paused, not to \<open>now\<close>.  That
  difference always lies between 1 and 1000: the source replaces only a negative difference
  by 1, and no tick computes a difference of zero or less.
\<close>

theorem tick_delay:
  assumes "isTimerActive st" and "startTime st = Some t0" and "t0 \<noteq> 0"
    and "(now - t0 - pausedTime st) div 1000 < trainingDuration st"
  shows "timeoutRef (fst (tick st now)) =
           Some (max 1 (t0 + pausedTime st + ((now - t0 - pausedTime st) div 1000 + 1) * 1000 - now))
       \<and> 1 \<le> t0 + pausedTime st + ((now - t0 - pausedTime st) div 1000 + 1) * 1000 - now
       \<and> t0 + pausedTime st + ((now - t0 - pausedTime st) div 1000 + 1) * 1000 - now \<le> 1000"
proof -
  have t: "targetTime st now - now =
      t0 + pausedTime st + ((now - t0 - pausedTime st) div 1000 + 1) * 1000 - now"
    using assms(2) by (simp add: targetTime_def totalElapsedSeconds_def totalElapsedMs_def)
  have s: "totalElapsedSeconds st now = (now - t0 - pausedTime st) div 1000"
    using assms(2) by (simp add: totalElapsedSeconds_def totalElapsedMs_def)
  have r: "1 \<le> targetTime st now - now" "targetTime st now - now \<le> 1000"
    using raw_delay_range[of st now] by simp_all
  then have n: "\<not> targetTime st now - now < 0" by linarith
  have f: "\<not> falsy (startTime st)" using assms(2,3) by (simp add: falsy_def)
  have "timeoutRef (fst (tick st now)) = Some (max 1 (targetTime st now - now))"
    using assms(1,4) f n r s by (simp add: tick_def Let_def max_def)
  with r t show ?thesis by simp
qed

text \<open>
  A session started at 5000321 that spent 4567 ms paused: a tick at 5070000 finds 65112 ms
  elapsed and schedules the next one 888 ms later, at 66 elapsed seconds.
\<close>

theorem tick_delay_witness:
  "isTimerActive resumed30 \<and> startTime resumed30 = Some 5000321 \<and> (5000321::int) \<noteq> 0
   \<and> pausedTime resumed30 = 4567
   \<and> (5070000 - 5000321 - pausedTime resumed30) div 1000 < trainingDuration resumed30
   \<and> timeoutRef (fst (tick resumed30 5070000)) = Some 888"
  using tick_delay[of resumed30 5000321 5070000]
  by (simp add: resumed30_eq app_init_def)

subsection \<open>Interval notifications\<close>

lemma div_by_parts:
  fixes e s r :: int
  assumes "e = 1000 * s + r" "0 \<le> r" "r < 1000"
  shows "(r < 100 \<longrightarrow> (e - 100) div 1000 = s - 1) \<and> (100 \<le> r \<longrightarrow> (e - 100) div 1000 = s)"
proof (intro conjI impI)
  assume "r < 100"
  have "e - 100 = 1000 * (s - 1) + (r + 900)" using assms(1) by simp
  then show "(e - 100) div 1000 = s - 1"
    by (rule int_div_pos_eq) (use assms(2) \<open>r < 100\<close> in simp_all)
next
  assume "100 \<le> r"
  have "e - 100 = 1000 * s + (r - 100)" using assms(1) by simp
  then show "(e - 100) div 1000 = s"
    by (rule int_div_pos_eq) (use assms(3) \<open>100 \<le> r\<close> in simp_all)
qed

lemma pred_of_multiple:
  fixes s k :: int
  assumes "s = 180 * k"
  shows "(s - 1) div 180 = k - 1"
proof -
  have "s - 1 = 180 * (k - 1) + 179" using assms by simp
  then show ?thesis by (rule int_div_pos_eq) simp_all
qed

lemma boundary_previous:
  assumes "0 < s" "s mod 180 = 0" "s = e div 1000"
  shows "((e - 100) div 1000 div 180 < s div 180) = (e mod 1000 < (100::int))"
proof -
  define r where "r = e mod 1000"
  have e: "e = 1000 * s + r" using assms(3) by (simp add: r_def)
  have r: "0 \<le> r" "r < 1000" by (simp_all add: r_def)
  note parts = div_by_parts[OF e r]
  have k: "s = 180 * (s div 180)" using assms(2) by (simp add: mod_eq_0_iff_dvd)
  show ?thesis
  proof (cases "r < 100")
    case True
    with parts have "(e - 100) div 1000 = s - 1" by simp
    moreover have "(s - 1) div 180 = s div 180 - 1" using k by (rule pred_of_multiple)
    ultimately show ?thesis using True by (simp add: r_def)
  next
    case False
    with parts have "(e - 100) div 1000 = s" by simp
    then show ?thesis using False by (simp add: r_def)
  qed
qed

text \<open>
  What one call of \<open>tick\<close> sends: the reminder of the current second when the whole seconds
  elapsed are a positive multiple of 180 and the call runs within the first 100 ms of that
  second, and nothing otherwise.
\<close>

lemma tick_sends:
  assumes "isTimerActive st" and "\<not> falsy (startTime st)"
    and "totalElapsedSeconds st now < trainingDuration st"
  shows "snd (tick st now) =
    (if 0 < totalElapsedSeconds st now \<and> totalElapsedSeconds st now mod 180 = 0
        \<and> totalElapsedMs st now mod 1000 < 100
     then [ScheduleNotification (sendIntervalNotification st (totalElapsedSeconds st now))]
     else [])"
proof -
  have run: "snd (tick st now) = intervalNotifications st now"
    using assms by (simp add: tick_def Let_def max_def)
  show ?thesis
  proof (cases "0 < totalElapsedSeconds st now \<and> totalElapsedSeconds st now mod 180 = 0")
    case True
    then have b: "((totalElapsedMs st now - 100) div 1000 div 180 < totalElapsedSeconds st now div 180)
          = (totalElapsedMs st now mod 1000 < 100)"
      by (intro boundary_previous) (simp_all add: totalElapsedSeconds_def)
    from True have "js_rem (totalElapsedSeconds st now) 180 = 0" by (simp add: js_rem_def)
    with True b run show ?thesis by (simp add: intervalNotifications_def Let_def)
  next
    case False
    then have "\<not> (0 < totalElapsedSeconds st now \<and> js_rem (totalElapsedSeconds st now) 180 = 0)"
      by (auto simp add: js_rem_def)
    with False run show ?thesis by (auto simp add: intervalNotifications_def Let_def)
  qed
qed

lemma delayed_session_eq:
  "delayed_session =
     session30\<lparr> timeRemaining := 1799, lastTickRef := Some 5001000, timeoutRef := Some 1000 \<rparr>"
  by (simp add: delayed_session_def tick_def session30_eq app_init_def falsy_def
      totalElapsedSeconds_def totalElapsedMs_def targetTime_def Let_def)

text \<open>
  Claim C1, as the code has it.  Let a tick of a running session started at \<open>t0\<close> not
  complete it, and let \<open>s = floor ((now - t0 - pausedTime) / 1000)\<close> be the whole seconds
  elapsed.  The tick sends an interval notification only if \<open>s\<close> is a positive multiple of
  180, it sends at most one, and the one it sends is the reminder for \<open>s\<close>; a tick that
  runs exactly at such a second does send it.  The tick keeps no record of the last boundary
  notified and sends nothing for a boundary it ran past.  How many ticks send the reminder
  of one boundary is not part of this statement.
\<close>

theorem tick_interval_notifications:
  assumes "isTimerActive st" and "startTime st = Some t0" and "t0 \<noteq> 0"
    and "(now - t0 - pausedTime st) div 1000 < trainingDuration st"
  shows "(\<not> (0 < (now - t0 - pausedTime st) div 1000
             \<and> (now - t0 - pausedTime st) div 1000 mod 180 = 0)
           \<longrightarrow> snd (tick st now) = [])
       \<and> (snd (tick st now) = []
           \<or> snd (tick st now) =
               [ScheduleNotification
                  (sendIntervalNotification st ((now - t0 - pausedTime st) div 1000))])
       \<and> (0 < (now - t0 - pausedTime st) div 1000
             \<and> (now - t0 - pausedTime st) div 1000 mod 180 = 0
             \<and> (now - t0 - pausedTime st) mod 1000 = 0
           \<longrightarrow> snd (tick st now) =
               [ScheduleNotification
                  (sendIntervalNotification st ((now - t0 - pausedTime st) div 1000))])"
proof -
  have s: "totalElapsedSeconds st now = (now - t0 - pausedTime st) div 1000"
    using assms(2) by (simp add: totalElapsedSeconds_def totalElapsedMs_def)
  have m: "totalElapsedMs st now = now - t0 - pausedTime st"
    using assms(2) by (simp add: totalElapsedMs_def)
  have f: "\<not> falsy (startTime st)" using assms(2,3) by (simp add: falsy_def)
  have "totalElapsedSeconds st now < trainingDuration st" using assms(4) s by simp
  from tick_sends[OF assms(1) f this] show ?thesis unfolding s m by simp
qed

text \<open>
  In a thirty-minute session started at 5000000, a tick exactly at the 180th second sends
  the reminder of that boundary; a tick at 401 elapsed seconds sends nothing.
\<close>

theorem tick_interval_notifications_witness:
  "isTimerActive session30 \<and> startTime session30 = Some 5000000 \<and> (5000000::int) \<noteq> 0
   \<and> (5180000 - 5000000 - pausedTime session30) div 1000 = 180
   \<and> (5180000 - 5000000 - pausedTime session30) mod 1000 = 0
   \<and> (5180000 - 5000000 - pausedTime session30) div 1000 < trainingDuration session30
   \<and> snd (tick session30 5180000) = [ScheduleNotification (IntervalReminder GreatStart)]
   \<and> (5401000 - 5000000 - pausedTime session30) div 1000 = 401
   \<and> (5401000 - 5000000 - pausedTime session30) div 1000 < trainingDuration session30
   \<and> snd (tick session30 5401000) = []"
  using tick_interval_notifications[of session30 5000000 5401000]
    tick_interval_notifications[of session30 5000000 5180000]
  by (simp add: session30_eq app_init_def sendIntervalNotification_def)

text \<open>
  The catch-up scenario of the specification: after a first tick one second in, the next tick
  runs 400 seconds late, at 401 elapsed seconds.  The boundary contract of the specification
  names the boundaries 1 and 2; the tick sends no notification.  And a boundary met on time
  is notified twice: the timeout fires 5 ms after the 180th second and its tick sends the
  reminder; the tick changed \<open>timeRemaining\<close>, so the effect runs again, 20 ms after the
  180th second, and its tick sends the same reminder once more.
\<close>

theorem catch_up_counterexample:
  "delayed_session = session30\<lparr> timeRemaining := 1799, lastTickRef := Some 5001000, timeoutRef := Some 1000 \<rparr>
   \<and> totalElapsedSeconds delayed_session 5401000 = 401
   \<and> spec_crossed_boundaries 180 0 401 = [1, 2]
   \<and> snd (tick delayed_session 5401000) = []
   \<and> totalElapsedSeconds delayed_session 5180005 = 180
   \<and> spec_crossed_boundaries 180 0 180 = [1]
   \<and> snd (timeoutCycle delayed_session 5180005 5180020) =
        [ScheduleNotification (IntervalReminder GreatStart),
         ScheduleNotification (IntervalReminder GreatStart)]"
proof -
  note d = delayed_session_eq
  have e: "totalElapsedSeconds delayed_session 5401000 = 401"
    "totalElapsedSeconds delayed_session 5180005 = 180"
    by (simp_all add: d session30_eq app_init_def totalElapsedSeconds_def totalElapsedMs_def)
  have s: "spec_crossed_boundaries 180 0 401 = [1, 2]" "spec_crossed_boundaries 180 0 180 = [1]"
    by code_simp+
  have t: "snd (tick delayed_session 5401000) = []"
    by (simp add: d tick_def session30_eq app_init_def falsy_def intervalNotifications_def
        js_rem_def totalElapsedSeconds_def totalElapsedMs_def targetTime_def Let_def)
  have c: "snd (timeoutCycle delayed_session 5180005 5180020) =
        [ScheduleNotification (IntervalReminder GreatStart),
         ScheduleNotification (IntervalReminder GreatStart)]"
    by (simp add: d timeoutCycle_def lifecycleEffect_def lifecycleCleanup_def
        dependenciesChanged_def tick_def session30_eq app_init_def falsy_def
        intervalNotifications_def sendIntervalNotification_def js_rem_def
        totalElapsedSeconds_def totalElapsedMs_def targetTime_def Let_def)
  from d e s t c show ?thesis by simp
qed

subsection \<open>The countdown of the current interval\<close>

text \<open>
  Claim C10, as the code has it.  Whenever the time remaining does not exceed the training
  duration (the elapsed seconds are not negative), the countdown of the current interval is 0
  when no time remains and lies between 1 and 180 otherwise, it shows 180 and not 0 at an
  exact multiple of 180 elapsed seconds, and the interval index is at least 1.
\<close>

theorem interval_countdown_range:
  assumes "timeRemaining st \<le> trainingDuration st"
  shows "(timeRemaining st = 0 \<longrightarrow> currentIntervalRemaining st = 0)
       \<and> (timeRemaining st \<noteq> 0 \<longrightarrow> 1 \<le> currentIntervalRemaining st \<and> currentIntervalRemaining st \<le> 180)
       \<and> (timeRemaining st \<noteq> 0 \<and> elapsedSeconds st mod 180 = 0 \<longrightarrow> currentIntervalRemaining st = 180)
       \<and> 1 \<le> currentIntervalIndex st"
proof -
  define r where "r = elapsedSeconds st mod 180"
  have e: "0 \<le> elapsedSeconds st" using assms by (simp add: elapsedSeconds_def)
  then have j: "js_rem (elapsedSeconds st) 180 = r"
    unfolding r_def by (rule js_rem_nonneg)
  have "0 \<le> r" "r < 180" by (simp_all add: r_def)
  then have m: "0 \<le> r" "r \<le> 179" by simp_all
  have i: "0 \<le> elapsedSeconds st div 180" using e by (simp add: pos_imp_zdiv_nonneg_iff)
  have z: "elapsedSeconds st mod 180 = 0 \<longrightarrow> r = 0" by (simp add: r_def)
  show ?thesis using m i z by (auto simp add: currentIntervalRemaining_def currentIntervalIndex_def j)
qed

text \<open>Six minutes into a thirty-minute session, and at its end.\<close>

theorem interval_countdown_range_witness:
  "timeRemaining (app_init\<lparr> timeRemaining := 1440 \<rparr>) \<le> trainingDuration (app_init\<lparr> timeRemaining := 1440 \<rparr>)
   \<and> timeRemaining (app_init\<lparr> timeRemaining := 1440 \<rparr>) \<noteq> 0
   \<and> elapsedSeconds (app_init\<lparr> timeRemaining := 1440 \<rparr>) mod 180 = 0
   \<and> currentIntervalRemaining (app_init\<lparr> timeRemaining := 1440 \<rparr>) = 180
   \<and> 1 \<le> currentIntervalIndex (app_init\<lparr> timeRemaining := 1440 \<rparr>)
   \<and> timeRemaining (app_init\<lparr> timeRemaining := 0 \<rparr>) \<le> trainingDuration (app_init\<lparr> timeRemaining := 0 \<rparr>)
   \<and> timeRemaining (app_init\<lparr> timeRemaining := 0 \<rparr>) = 0
   \<and> currentIntervalRemaining (app_init\<lparr> timeRemaining := 0 \<rparr>) = 0"
  using interval_countdown_range[of "app_init\<lparr> timeRemaining := 1440 \<rparr>"]
    interval_countdown_range[of "app_init\<lparr> timeRemaining := 0 \<rparr>"]
  by (simp add: app_init_def elapsedSeconds_def)

text \<open>
  On the idle screen the \<open>15m\<close> preset sets the training duration to 900 seconds and leaves
  the time remaining at its initial 1800: the elapsed seconds are \<open>-900\<close> and the index
  computed for that render is \<open>-4\<close>.
\<close>

theorem interval_index_counterexample:
  "setPresetDuration app_init ''15'' = Some preset15
   \<and> timeRemaining preset15 \<noteq> 0
   \<and> currentIntervalIndex preset15 = - 4
   \<and> \<not> 1 \<le> currentIntervalIndex preset15"
  by (simp add: setPresetDuration_def preset15_def app_init_def parseInt_def parseDigits_def
      digitValue_def isWhiteSpace_def currentIntervalIndex_def elapsedSeconds_def Let_def)

subsection \<open>Validation of the duration\<close>

lemma parse_4: "parseInt ''4'' = Some 4"
  by (simp add: parseInt_def parseDigits_def digitValue_def isWhiteSpace_def Let_def)
lemma parse_abc: "parseInt ''abc'' = None"
  by (simp add: parseInt_def parseDigits_def digitValue_def isWhiteSpace_def Let_def)
lemma parse_121: "parseInt ''121'' = Some 121"
  by (simp add: parseInt_def parseDigits_def digitValue_def isWhiteSpace_def Let_def)
lemma parse_30: "parseInt ''30'' = Some 30"
  by (simp add: parseInt_def parseDigits_def digitValue_def isWhiteSpace_def Let_def)

lemmas store_defs = accumulatedMs_m_def startMonoMs_m_def setAccumulatedMs_def setStartMonoMs_def
  getNumber_def setNumber_def

lemma startup_eq:
  "startup store = \<lparr> isTimerActive_m = False, trainingDuration_m = 1800, showConfetti_m = False,
     isRunning_m = False, durationMs_m = 1800000, storage = Map.empty \<rparr>"
  by (simp add: startup_def onAppStart_def initialRender_def clearAll_def)

text \<open>
  Claim C4, as the code has it.  In the scheduler version \<open>startTimer\<close> parses the requested
  duration.  If it is not a number, or is below 5 or above 120 minutes, the call raises the
  invalid-duration alert, before anything else, and returns the state it was given, every
  field unchanged.  If it lies in the range the session starts.  A call that raises no alert
  had a duration inside the range.  In the render-synchronised version \<open>startTimer\<close> takes
  no duration and checks none: it reports nothing and starts a session of whatever training
  duration the state holds.
\<close>

theorem startTimer_validation:
  "((parseInt (customDuration st) = None
      \<or> (\<exists>d. parseInt (customDuration st) = Some d \<and> (d < 5 \<or> 120 < d)))
     \<longrightarrow> startTimer st now nid = (st, [AlertInvalidDuration]))
   \<and> (\<forall>d. parseInt (customDuration st) = Some d \<and> 5 \<le> d \<and> d \<le> 120
     \<longrightarrow> startTimer st now nid =
          (st\<lparr> trainingDuration := d * 60, timeRemaining := d * 60, startTime := Some now,
               pausedTime := 0, pauseStartTime := None, timeoutRef := None,
               isTimerActive := True, notificationId := Some nid \<rparr>,
           [KeyboardDismiss, ScheduleNotification (TrainingStarted d)]))
   \<and> (AlertInvalidDuration \<notin> set (snd (startTimer st now nid))
     \<longrightarrow> (\<exists>d. parseInt (customDuration st) = Some d \<and> 5 \<le> d \<and> d \<le> 120))
   \<and> isTimerActive_m (startTimer_m m t) \<and> isRunning_m (startTimer_m m t)
   \<and> durationMs_m (startTimer_m m t) = trainingDuration_m m * 1000
   \<and> trainingDuration_m (startTimer_m m t) = trainingDuration_m m
   \<and> accumulatedMs_m (startTimer_m m t) = Some 0
   \<and> startMonoMs_m (startTimer_m m t) = Some t"
proof -
  have a: "((parseInt (customDuration st) = None
      \<or> (\<exists>d. parseInt (customDuration st) = Some d \<and> (d < 5 \<or> 120 < d)))
     \<longrightarrow> startTimer st now nid = (st, [AlertInvalidDuration]))"
    by (auto simp add: startTimer_def Let_def split: option.splits)
  have b: "(\<forall>d. parseInt (customDuration st) = Some d \<and> 5 \<le> d \<and> d \<le> 120
     \<longrightarrow> startTimer st now nid =
          (st\<lparr> trainingDuration := d * 60, timeRemaining := d * 60, startTime := Some now,
               pausedTime := 0, pauseStartTime := None, timeoutRef := None,
               isTimerActive := True, notificationId := Some nid \<rparr>,
           [KeyboardDismiss, ScheduleNotification (TrainingStarted d)]))"
    by (auto simp add: startTimer_def Let_def split: option.splits)
  have c: "(AlertInvalidDuration \<notin> set (snd (startTimer st now nid))
     \<longrightarrow> (\<exists>d. parseInt (customDuration st) = Some d \<and> 5 \<le> d \<and> d \<le> 120))"
    by (auto simp add: startTimer_def Let_def split: option.splits)
  have d: "isTimerActive_m (startTimer_m m t) \<and> isRunning_m (startTimer_m m t)
   \<and> durationMs_m (startTimer_m m t) = trainingDuration_m m * 1000
   \<and> trainingDuration_m (startTimer_m m t) = trainingDuration_m m
   \<and> accumulatedMs_m (startTimer_m m t) = Some 0
   \<and> startMonoMs_m (startTimer_m m t) = Some t"
    by (simp add: startTimer_m_def store_defs)
  from a b c d show ?thesis by blast
qed

text \<open>
  Four, a word and 121 are refused, the first during a running session, which goes on
  untouched; thirty is accepted.
\<close>

theorem startTimer_validation_witness:
  "startTimer (session30\<lparr> customDuration := ''4'' \<rparr>) 7 ''n2''
      = (session30\<lparr> customDuration := ''4'' \<rparr>, [AlertInvalidDuration])
   \<and> startTimer (app_init\<lparr> customDuration := ''abc'' \<rparr>) 7 ''n2''
      = (app_init\<lparr> customDuration := ''abc'' \<rparr>, [AlertInvalidDuration])
   \<and> startTimer (app_init\<lparr> customDuration := ''121'' \<rparr>) 7 ''n2''
      = (app_init\<lparr> customDuration := ''121'' \<rparr>, [AlertInvalidDuration])
   \<and> parseInt (customDuration app_init) = Some 30
   \<and> isTimerActive (fst (startTimer app_init 7 ''n2''))
   \<and> AlertInvalidDuration \<notin> set (snd (startTimer app_init 7 ''n2''))"
  using startTimer_validation[of "session30\<lparr> customDuration := ''4'' \<rparr>" 7 "''n2''" one_minute_m 1000]
    startTimer_validation[of "app_init\<lparr> customDuration := ''abc'' \<rparr>" 7 "''n2''" one_minute_m 1000]
    startTimer_validation[of "app_init\<lparr> customDuration := ''121'' \<rparr>" 7 "''n2''" one_minute_m 1000]
    startTimer_validation[of app_init 7 "''n2''" one_minute_m 1000]
  by (simp add: parse_4 parse_abc parse_121 parse_30 app_init_def)

text \<open>
  The render-synchronised version started from a state that holds a training duration of
  one minute: no error is reported, the session runs, with a duration of 60000 ms.
\<close>

theorem unchecked_start_counterexample:
  "trainingDuration_m one_minute_m = 60
   \<and> \<not> isRunning_m one_minute_m
   \<and> isTimerActive_m (startTimer_m one_minute_m 1000)
   \<and> isRunning_m (startTimer_m one_minute_m 1000)
   \<and> durationMs_m (startTimer_m one_minute_m 1000) = 60000
   \<and> startTimer_m one_minute_m 1000 \<noteq> one_minute_m"
proof -
  have a: "trainingDuration_m one_minute_m = 60" "\<not> isRunning_m one_minute_m"
    by (simp_all add: one_minute_m_def setPresetDuration_m_def startup_eq)
  have b: "isTimerActive_m (startTimer_m one_minute_m 1000)"
    "isRunning_m (startTimer_m one_minute_m 1000)"
    "durationMs_m (startTimer_m one_minute_m 1000) = 60000"
    by (simp_all add: one_minute_m_def setPresetDuration_m_def startup_eq startTimer_m_def store_defs)
  from a(2) b(2) have "startTimer_m one_minute_m 1000 \<noteq> one_minute_m" by auto
  with a b show ?thesis by simp
qed

section \<open>Properties of the render-synchronised version\<close>

subsection \<open>Frames\<close>

lemma frame_not_running: "runningSV sv = 0 \<Longrightarrow> frameCallback done sv t = (sv, [])"
  by (simp add: frameCallback_def)

lemma frame_advancing:
  "runningSV sv \<noteq> 0 \<Longrightarrow> liveElapsed sv t < durationSV sv
   \<Longrightarrow> frameCallback done sv t = (sv\<lparr> renderElapsedSV := liveElapsed sv t \<rparr>, [])"
  by (simp add: frameCallback_def Let_def)

lemma frame_reaching:
  "runningSV sv \<noteq> 0 \<Longrightarrow> durationSV sv \<le> liveElapsed sv t
   \<Longrightarrow> frameCallback done sv t =
        (sv\<lparr> baseElapsedSV := durationSV sv, renderElapsedSV := durationSV sv, runningSV := 0 \<rparr>,
         (case done of None \<Rightarrow> [] | Some cb \<Rightarrow> [ScheduleOnRN cb]))"
  by (simp add: frameCallback_def Let_def)

lemma runFrames_not_running: "runningSV sv = 0 \<Longrightarrow> runFrames done sv ts = (sv, [])"
  by (induction ts) (simp_all add: frame_not_running)

lemma renderedFrames_not_running:
  "runningSV sv = 0 \<Longrightarrow> renderedFrames done sv ts = replicate (length ts) (renderElapsedSV sv)"
  by (induction ts) (simp_all add: frame_not_running)

lemma liveElapsed_render [simp]:
  "liveElapsed (sv\<lparr> renderElapsedSV := x \<rparr>) t = liveElapsed sv t"
  by (simp add: liveElapsed_def)

lemma runFrames_advancing:
  "runningSV sv \<noteq> 0 \<Longrightarrow> \<forall>t \<in> set ts. liveElapsed sv t < durationSV sv
   \<Longrightarrow> \<exists>x. runFrames done sv ts = (sv\<lparr> renderElapsedSV := x \<rparr>, [])"
proof (induction ts arbitrary: sv)
  case Nil
  have "sv = sv\<lparr> renderElapsedSV := renderElapsedSV sv \<rparr>" by simp
  then show ?case by (metis runFrames.simps(1))
next
  case (Cons t ts)
  let ?sv1 = "sv\<lparr> renderElapsedSV := liveElapsed sv t \<rparr>"
  have f: "frameCallback done sv t = (?sv1, [])"
    using Cons.prems by (simp add: frame_advancing)
  have "runningSV ?sv1 \<noteq> 0" using Cons.prems by simp
  moreover have "\<forall>u \<in> set ts. liveElapsed ?sv1 u < durationSV ?sv1" using Cons.prems by simp
  ultimately obtain x where "runFrames done ?sv1 ts = (?sv1\<lparr> renderElapsedSV := x \<rparr>, [])"
    using Cons.IH by blast
  then have "runFrames done sv (t # ts) = (sv\<lparr> renderElapsedSV := x \<rparr>, [])"
    using f by simp
  then show ?case by blast
qed

lemma runFrames_append:
  "runFrames done sv (xs @ ys) =
     (fst (runFrames done (fst (runFrames done sv xs)) ys),
      snd (runFrames done sv xs) @ snd (runFrames done (fst (runFrames done sv xs)) ys))"
  by (induction xs arbitrary: sv) (simp_all add: Let_def)

lemma runFrames_reach:
  assumes "runningSV sv \<noteq> 0"
    and "\<forall>u \<in> set pre. liveElapsed sv u < durationSV sv"
    and "durationSV sv \<le> liveElapsed sv t"
  shows "runFrames done sv (pre @ [t]) =
           (sv\<lparr> baseElapsedSV := durationSV sv, renderElapsedSV := durationSV sv, runningSV := 0 \<rparr>,
            (case done of None \<Rightarrow> [] | Some cb \<Rightarrow> [ScheduleOnRN cb]))"
proof -
  obtain x where pre: "runFrames done sv pre = (sv\<lparr> renderElapsedSV := x \<rparr>, [])"
    using runFrames_advancing[OF assms(1,2)] by blast
  let ?sv1 = "sv\<lparr> renderElapsedSV := x \<rparr>"
  have "runningSV ?sv1 \<noteq> 0" "durationSV ?sv1 \<le> liveElapsed ?sv1 t"
    using assms(1,3) by simp_all
  then have "frameCallback done ?sv1 t =
        (?sv1\<lparr> baseElapsedSV := durationSV ?sv1, renderElapsedSV := durationSV ?sv1, runningSV := 0 \<rparr>,
         (case done of None \<Rightarrow> [] | Some cb \<Rightarrow> [ScheduleOnRN cb]))"
    by (rule frame_reaching)
  then have "runFrames done ?sv1 [t] =
        (sv\<lparr> baseElapsedSV := durationSV sv, renderElapsedSV := durationSV sv, runningSV := 0 \<rparr>,
         (case done of None \<Rightarrow> [] | Some cb \<Rightarrow> [ScheduleOnRN cb]))"
    by (simp add: Let_def)
  then show ?thesis using pre by (simp add: runFrames_append)
qed

lemma running_sv_eq:
  "running_sv = \<lparr> baseElapsedSV = 0, startMonoSV = 1000, runningSV = 1, durationSV = 1800000,
      renderElapsedSV = 0 \<rparr>"
  by (simp add: running_sv_def running_m_def startTimer_m_def startup_def onAppStart_def
      initialRender_def clearAll_def timerDisplayProps_def useSharedValues_def syncAnchors_def
      accumulatedMs_m_def startMonoMs_m_def setAccumulatedMs_def setStartMonoMs_def
      getNumber_def setNumber_def Let_def)

subsection \<open>The frozen display\<close>

text \<open>
  Claim C8.  While the running flag of the render layer is off, every frame callback leaves
  the shared values as they are, so the value rendered after each frame of any run of frames
  is the same one.  When the props say the timer is not running, the sync effect turns the
  flag off and sets base and rendered value to the accumulated milliseconds, and that is the
  value every later frame renders.
\<close>

theorem render_frozen:
  "(runningSV sv = 0 \<longrightarrow>
      renderedFrames done sv ts = replicate (length ts) (renderElapsedSV sv)
      \<and> runFrames done sv ts = (sv, []))
   \<and> (\<not> isRunning p \<longrightarrow>
      runningSV (syncAnchors p sv) = 0
      \<and> baseElapsedSV (syncAnchors p sv) = accumulatedMs p
      \<and> renderedFrames (onDone p) (syncAnchors p sv) ts = replicate (length ts) (accumulatedMs p))"
proof (intro conjI impI)
  assume "runningSV sv = 0"
  then show "renderedFrames done sv ts = replicate (length ts) (renderElapsedSV sv)"
    by (rule renderedFrames_not_running)
  show "runFrames done sv ts = (sv, [])"
    using \<open>runningSV sv = 0\<close> by (rule runFrames_not_running)
next
  assume p: "\<not> isRunning p"
  then show r: "runningSV (syncAnchors p sv) = 0"
    by (simp add: syncAnchors_def Let_def split: option.splits)
  show "baseElapsedSV (syncAnchors p sv) = accumulatedMs p"
    using p by (simp add: syncAnchors_def Let_def split: option.splits)
  have "renderElapsedSV (syncAnchors p sv) = accumulatedMs p"
    using p by (simp add: syncAnchors_def Let_def split: option.splits)
  then show "renderedFrames (onDone p) (syncAnchors p sv) ts = replicate (length ts) (accumulatedMs p)"
    using renderedFrames_not_running[OF r, of "onDone p" ts] by simp
qed

text \<open>
  A session paused 60 seconds in: the display, synchronised with the paused props, renders
  60000 at each of three later frames.
\<close>

theorem render_frozen_witness:
  "\<not> isRunning (timerDisplayProps (stopTimer_m running_m running_m 61000))
   \<and> accumulatedMs (timerDisplayProps (stopTimer_m running_m running_m 61000)) = 60000
   \<and> runningSV (syncAnchors (timerDisplayProps (stopTimer_m running_m running_m 61000)) running_sv) = 0
   \<and> renderedFrames (Some OnDone) (syncAnchors (timerDisplayProps (stopTimer_m running_m running_m 61000)) running_sv)
        [61016, 61032, 99000] = [60000, 60000, 60000]"
  using render_frozen[of running_sv "Some OnDone" "[61016, 61032, 99000]"
      "timerDisplayProps (stopTimer_m running_m running_m 61000)"]
    render_frozen[of "syncAnchors (timerDisplayProps (stopTimer_m running_m running_m 61000)) running_sv"
      "Some OnDone" "[61016, 61032, 99000]" "timerDisplayProps (stopTimer_m running_m running_m 61000)"]
  by (simp add: running_m_def startTimer_m_def stopTimer_m_def startup_def onAppStart_def
      initialRender_def clearAll_def timerDisplayProps_def
      accumulatedMs_m_def startMonoMs_m_def setAccumulatedMs_def setStartMonoMs_def
      getNumber_def setNumber_def Let_def)
subsection \<open>Reaching the duration\<close>

lemma runFrames_advancing_value:
  "runningSV sv \<noteq> 0 \<Longrightarrow> \<forall>t \<in> set ts. liveElapsed sv t < durationSV sv
   \<Longrightarrow> runFrames done sv ts =
        (sv\<lparr> renderElapsedSV := (if ts = [] then renderElapsedSV sv else liveElapsed sv (last ts)) \<rparr>,
         [])"
proof (induction ts arbitrary: sv)
  case Nil
  then show ?case by simp
next
  case (Cons t ts)
  let ?sv1 = "sv\<lparr> renderElapsedSV := liveElapsed sv t \<rparr>"
  have f: "frameCallback done sv t = (?sv1, [])"
    using Cons.prems by (simp add: frame_advancing)
  have "runningSV ?sv1 \<noteq> 0" using Cons.prems by simp
  moreover have "\<forall>u \<in> set ts. liveElapsed ?sv1 u < durationSV ?sv1" using Cons.prems by simp
  ultimately have "runFrames done ?sv1 ts =
      (?sv1\<lparr> renderElapsedSV := (if ts = [] then renderElapsedSV ?sv1 else liveElapsed ?sv1 (last ts)) \<rparr>, [])"
    by (rule Cons.IH)
  then show ?case using f by simp
qed

lemma running_m_eq:
  "running_m = \<lparr> isTimerActive_m = True, trainingDuration_m = 1800, showConfetti_m = False,
     isRunning_m = True, durationMs_m = 1800000,
     storage = [''accumulatedMs'' \<mapsto> Num 0, ''startMonoMs'' \<mapsto> Num 1000] \<rparr>"
  by (simp add: running_m_def startup_eq startTimer_m_def store_defs)

lemma paused_m_eq:
  "paused_m = \<lparr> isTimerActive_m = True, trainingDuration_m = 1800, showConfetti_m = False,
     isRunning_m = False, durationMs_m = 1800000,
     storage = [''accumulatedMs'' \<mapsto> Num 60000] \<rparr>"
  by (simp add: paused_m_def running_m_eq stopTimer_m_def store_defs Let_def fun_eq_iff)

lemma resumed_m_eq:
  "resumed_m = \<lparr> isTimerActive_m = True, trainingDuration_m = 1800, showConfetti_m = False,
     isRunning_m = True, durationMs_m = 1800000,
     storage = [''accumulatedMs'' \<mapsto> Num 60000, ''startMonoMs'' \<mapsto> Num 70000] \<rparr>"
  by (simp add: resumed_m_def paused_m_eq continueTraining_m_def store_defs)

lemma resumed_sv_eq:
  "resumed_sv = \<lparr> baseElapsedSV = 60000, startMonoSV = 70000, runningSV = 1,
      durationSV = 1800000, renderElapsedSV = 60000 \<rparr>"
  by (simp add: resumed_sv_def resumed_m_eq running_sv_eq timerDisplayProps_def syncAnchors_def
      store_defs Let_def)

text \<open>
  Claim C9.  In a running segment with an \<open>onDone\<close> callback, let the frames \<open>pre\<close> find
  \<open>base + (nowMono - anchor)\<close> below the duration and let the frame at \<open>t\<close> be the first at
  which \<open>base + (nowMono - anchor)\<close> reaches or exceeds it.  The frames before it render
  that sum and schedule nothing.  At \<open>t\<close> the base and the rendered value become exactly the
  duration, the running flag is turned off, and the callback is handed once to
  \<open>scheduleOnRN\<close>, which runs it on the thread of the app; the frame callback itself changes
  shared values only.  Whatever frames follow change nothing and schedule nothing more.
\<close>

theorem reached_duration_once:
  assumes "runningSV sv \<noteq> 0"
    and "\<forall>u \<in> set pre. baseElapsedSV sv + (u - startMonoSV sv) < durationSV sv"
    and "durationSV sv \<le> baseElapsedSV sv + (t - startMonoSV sv)"
  shows "runFrames (Some cb) sv (pre @ [t]) =
           (sv\<lparr> baseElapsedSV := durationSV sv, renderElapsedSV := durationSV sv, runningSV := 0 \<rparr>,
            [ScheduleOnRN cb])
       \<and> runFrames (Some cb) sv (pre @ [t] @ post) = runFrames (Some cb) sv (pre @ [t])
       \<and> runFrames (Some cb) sv pre =
           (sv\<lparr> renderElapsedSV :=
                  (if pre = [] then renderElapsedSV sv
                   else baseElapsedSV sv + (last pre - startMonoSV sv)) \<rparr>,
            [])"
proof -
  let ?end = "sv\<lparr> baseElapsedSV := durationSV sv, renderElapsedSV := durationSV sv, runningSV := 0 \<rparr>"
  have below: "\<forall>u \<in> set pre. liveElapsed sv u < durationSV sv"
    using assms(2) by (simp add: liveElapsed_def)
  have reach: "durationSV sv \<le> liveElapsed sv t"
    using assms(3) by (simp add: liveElapsed_def)
  have r: "runFrames (Some cb) sv (pre @ [t]) = (?end, [ScheduleOnRN cb])"
    using runFrames_reach[OF assms(1) below reach, of "Some cb"] by simp
  have "runningSV ?end = 0" by simp
  then have "runFrames (Some cb) ?end post = (?end, [])" by (rule runFrames_not_running)
  then have "runFrames (Some cb) sv ((pre @ [t]) @ post) = (?end, [ScheduleOnRN cb])"
    using r by (simp only: runFrames_append[of _ _ "pre @ [t]"] fst_conv snd_conv append_Nil2)
  moreover have "runFrames (Some cb) sv pre =
           (sv\<lparr> renderElapsedSV :=
                  (if pre = [] then renderElapsedSV sv
                   else baseElapsedSV sv + (last pre - startMonoSV sv)) \<rparr>,
            [])"
    using runFrames_advancing_value[OF assms(1) below, of "Some cb"] by (simp add: liveElapsed_def)
  ultimately show ?thesis using r by simp
qed

text \<open>
  The session paused at 61000 and resumed at 70000: base 60000, anchor 70000, duration
  1800000.  The frame at 1805000 finds 1795000 elapsed, the frame at 1810000.5 finds
  1800000.5 and is the one that completes; a frame follows.
\<close>

theorem reached_duration_once_witness:
  "runningSV resumed_sv \<noteq> 0
   \<and> baseElapsedSV resumed_sv = 60000 \<and> startMonoSV resumed_sv = 70000
   \<and> durationSV resumed_sv = 1800000
   \<and> baseElapsedSV resumed_sv + (70016 - startMonoSV resumed_sv) < durationSV resumed_sv
   \<and> baseElapsedSV resumed_sv + (1805000 - startMonoSV resumed_sv) < durationSV resumed_sv
   \<and> durationSV resumed_sv \<le> baseElapsedSV resumed_sv + (1810000.5 - startMonoSV resumed_sv)
   \<and> runFrames (Some OnDone) resumed_sv [70016, 1805000] =
        (resumed_sv\<lparr> renderElapsedSV := 1795000 \<rparr>, [])
   \<and> runFrames (Some OnDone) resumed_sv ([70016, 1805000] @ [1810000.5] @ [1810016])
       = (resumed_sv\<lparr> baseElapsedSV := 1800000, renderElapsedSV := 1800000, runningSV := 0 \<rparr>,
          [ScheduleOnRN OnDone])"
  using reached_duration_once[of resumed_sv "[70016, 1805000]" "1810000.5" OnDone "[1810016]"]
  by (simp add: resumed_sv_eq)

subsection \<open>Pause and resume, called again\<close>

text \<open>
  Claim C5, as the code has it.  Let the second call come from the render that follows the
  first call.  Then in the render-synchronised version a pause while paused is a no-op: the
  second \<open>stopTimer\<close> leaves the state the first one left.  In the scheduler version a
  resume while running is a no-op in the same sense.  The other two calls have no guard: a
  second resume of the render-synchronised version replaces the stored anchor
  \<open>startMonoMs\<close>, and a second pause of the scheduler version replaces \<open>pauseStartTime\<close>,
  by the later clock reading, so two calls amount to one call made at the later instant.
\<close>

theorem pause_resume_repeated:
  "stopTimer_m (stopTimer_m m m t1) (stopTimer_m m m t1) t2 = stopTimer_m m m t1
   \<and> continueTraining (continueTraining a a u1) (continueTraining a a u1) u2
       = continueTraining a a u1
   \<and> continueTraining_m (continueTraining_m m t1) t2 = continueTraining_m m t2
   \<and> stopTimer (stopTimer a u1) u2 = stopTimer a u2"
proof (intro conjI)
  show "stopTimer_m (stopTimer_m m m t1) (stopTimer_m m m t1) t2 = stopTimer_m m m t1"
    by (simp add: stopTimer_m_def store_defs Let_def split: option.splits stored.splits)
  show "continueTraining (continueTraining a a u1) (continueTraining a a u1) u2
       = continueTraining a a u1"
    by (simp add: continueTraining_def Let_def split: option.splits)
  show "continueTraining_m (continueTraining_m m t1) t2 = continueTraining_m m t2"
    by (simp add: continueTraining_m_def store_defs)
  show "stopTimer (stopTimer a u1) u2 = stopTimer a u2"
    by (simp add: stopTimer_def)
qed

text \<open>
  Two calls from the closure of one render, with no render between them: the guard of the
  second call still finds the anchor of that render, and the updater adds to the live value.
  The render-synchronised version adds the running segment to \<open>accumulatedMs\<close> at each
  pause; the scheduler version adds the pause to \<open>pausedTime\<close> at each resume.
\<close>

lemma same_closure_pause:
  assumes "startMonoMs_m m = Some t0"
  shows "accumulatedMs_m (stopTimer_m m (stopTimer_m m m t1) t2) =
     Some ((case accumulatedMs_m m of None \<Rightarrow> 0 | Some prev \<Rightarrow> prev) + (t1 - t0) + (t2 - t0))"
  using assms by (simp add: stopTimer_m_def store_defs Let_def)

lemma same_closure_resume:
  assumes "pauseStartTime a = Some p"
  shows "pausedTime (continueTraining a (continueTraining a a u1) u2) =
     pausedTime a + (u1 - p) + (u2 - p)"
  using assms by (simp add: continueTraining_def Let_def)

text \<open>
  A session paused and resumed at 70000, then resumed again at 80000, is anchored at 80000
  and not at 70000; a scheduler session paused at 5060000 and again at 5090000 records the
  later instant as the start of the pause.  The session started at 1000 and paused at 61000
  stores 60000; paused again at 62000 from the same closure it stores 121000.
\<close>

theorem repeated_call_counterexample:
  "startMonoMs_m (continueTraining_m paused_m 70000) = Some 70000
   \<and> startMonoMs_m (continueTraining_m (continueTraining_m paused_m 70000) 80000) = Some 80000
   \<and> continueTraining_m (continueTraining_m paused_m 70000) 80000 \<noteq> continueTraining_m paused_m 70000
   \<and> pauseStartTime (stopTimer session30 5060000) = Some 5060000
   \<and> pauseStartTime (stopTimer (stopTimer session30 5060000) 5090000) = Some 5090000
   \<and> accumulatedMs_m (stopTimer_m running_m running_m 61000) = Some 60000
   \<and> accumulatedMs_m (stopTimer_m running_m (stopTimer_m running_m running_m 61000) 62000)
       = Some 121000"
proof -
  have a: "startMonoMs_m (continueTraining_m paused_m 70000) = Some 70000"
    by (simp add: continueTraining_m_def store_defs)
  have b: "startMonoMs_m (continueTraining_m (continueTraining_m paused_m 70000) 80000) = Some 80000"
    by (simp add: continueTraining_m_def store_defs)
  have c: "continueTraining_m (continueTraining_m paused_m 70000) 80000 \<noteq> continueTraining_m paused_m 70000"
    using a b by auto
  have d: "pauseStartTime (stopTimer session30 5060000) = Some 5060000"
    "pauseStartTime (stopTimer (stopTimer session30 5060000) 5090000) = Some 5090000"
    by (simp_all add: stopTimer_def)
  have e: "accumulatedMs_m (stopTimer_m running_m running_m 61000) = Some 60000"
    "accumulatedMs_m (stopTimer_m running_m (stopTimer_m running_m running_m 61000) 62000)
       = Some 121000"
    by (simp_all add: running_m_eq stopTimer_m_def store_defs Let_def)
  from a b c d e show ?thesis by simp
qed

subsection \<open>Accumulated time over pause and resume\<close>

lemma segment_total_snoc: "segment_total (segs @ [(a, t)]) = segment_total segs + (t - a)"
  by (simp add: segment_total_def)

lemma matches_call:
  assumes "matches st s" and "enabled (fst s) x"
  shows "matches (call_m st st x) (spec_step s x)"
proof (cases s)
  case (Pair ph segs)
  show ?thesis
  proof (cases ph)
    case Idle
    with Pair assms show ?thesis
      by (cases x) (simp_all add: startTimer_m_def stopTimer_m_def store_defs segment_total_def)
  next
    case (Running a)
    with Pair assms show ?thesis
      by (cases x) (simp_all add: stopTimer_m_def store_defs segment_total_snoc Let_def)
  next
    case Paused
    with Pair assms show ?thesis
      by (cases x) (simp_all add: stopTimer_m_def continueTraining_m_def store_defs Let_def
          split: option.splits stored.splits)
  qed
qed

lemma call_m_render: "(\<forall>t. x \<noteq> Pause t) \<Longrightarrow> call_m r st x = call_m st st x"
  by (cases x) simp_all

lemma matches_run:
  "matches st s \<Longrightarrow> (fresh \<longrightarrow> r = st) \<Longrightarrow> pauses_rendered fresh es
   \<Longrightarrow> admissible s (calls es)
   \<Longrightarrow> matches (snd (foldl step_m (r, st) es)) (foldl spec_step s (calls es))"
proof (induction es arbitrary: r st s fresh)
  case Nil
  then show ?case by simp
next
  case (Cons e es)
  show ?case
  proof (cases e)
    case Render
    have "matches (snd (foldl step_m (st, st) es)) (foldl spec_step s (calls es))"
      using Cons.prems Render by (intro Cons.IH[where fresh = True]) simp_all
    then show ?thesis using Render by simp
  next
    case (Call x)
    have en: "enabled (fst s) x" and ad: "admissible (spec_step s x) (calls es)"
      using Cons.prems(4) Call by simp_all
    have eq: "call_m r st x = call_m st st x"
    proof (cases "\<exists>t. x = Pause t")
      case True
      then obtain t where "x = Pause t" by blast
      with Cons.prems(3) Call have fresh by simp
      with Cons.prems(2) show ?thesis by simp
    next
      case False
      then have "\<forall>t. x \<noteq> Pause t" by blast
      then show ?thesis by (rule call_m_render)
    qed
    have pr: "pauses_rendered False es"
      using Cons.prems(3) Call by (cases x) simp_all
    have m: "matches (call_m r st x) (spec_step s x)"
      unfolding eq using Cons.prems(1) en by (rule matches_call)
    have "matches (snd (foldl step_m (r, call_m r st x) es))
            (foldl spec_step (spec_step s x) (calls es))"
      using m pr ad by (intro Cons.IH[where fresh = False]) simp_all
    then show ?thesis using Call by simp
  qed
qed

lemma pauses_rendered_take: "pauses_rendered fresh es \<Longrightarrow> pauses_rendered fresh (take n es)"
proof (induction es arbitrary: fresh n)
  case Nil
  then show ?case by simp
next
  case (Cons e es)
  show ?case
  proof (cases n)
    case 0
    then show ?thesis by simp
  next
    case (Suc k)
    show ?thesis
    proof (cases e)
      case Render
      with Cons Suc show ?thesis by simp
    next
      case (Call x)
      with Cons Suc show ?thesis by (cases x) simp_all
    qed
  qed
qed

lemma admissible_calls_take:
  "admissible s (calls es) \<Longrightarrow> admissible s (calls (take n es))"
proof (induction es arbitrary: s n)
  case Nil
  then show ?case by simp
next
  case (Cons e es)
  then show ?case by (cases n; cases e) simp_all
qed

text \<open>
  Claim C6, as the code has it.  Take any sequence of renders and of start, pause and resume
  calls in which start is called only when idle and resume only when paused, pause at any
  time, and in which every pause is called from a render made after the call before it; let
  it begin at a render of a state that is not running and stores no anchor.  At every point
  of the sequence at which the session is paused, the stored \<open>accumulatedMs\<close> is the sum,
  over the running segments completed so far, of pause instant minus segment-start instant.
\<close>

theorem accumulated_is_segment_total:
  assumes "\<not> isRunning_m st" and "startMonoMs_m st = None"
    and "pauses_rendered True es"
    and "admissible (Idle, []) (calls es)"
    and "fst (spec_run (calls (take n es))) = Paused"
  shows "accumulatedMs_m (run_m st (take n es)) =
           Some (segment_total (snd (spec_run (calls (take n es)))))"
proof -
  have "matches st (Idle, [])" using assms(1,2) by simp
  moreover have "pauses_rendered True (take n es)"
    using assms(3) by (rule pauses_rendered_take)
  moreover have "admissible (Idle, []) (calls (take n es))"
    using assms(4) by (rule admissible_calls_take)
  ultimately have m: "matches (run_m st (take n es)) (spec_run (calls (take n es)))"
    unfolding run_m_def spec_run_def by (intro matches_run[where fresh = True]) simp_all
  obtain segs where "spec_run (calls (take n es)) = (Paused, segs)"
    using assms(5) by (cases "spec_run (calls (take n es))") simp
  with m show ?thesis by simp
qed

text \<open>
  Two segments, of 60 and of 30 seconds, with a repeated pause between them, each call made
  from a fresh render: the paused states after the first pause and at the end.
\<close>

theorem accumulated_is_segment_total_witness:
  "\<not> isRunning_m (startup Map.empty) \<and> startMonoMs_m (startup Map.empty) = None
   \<and> pauses_rendered True
        [Call (Start 1000), Render, Call (Pause 61000), Render, Call (Pause 62000), Render,
         Call (Resume 70000), Render, Call (Pause 100000)]
   \<and> admissible (Idle, [])
        (calls [Call (Start 1000), Render, Call (Pause 61000), Render, Call (Pause 62000), Render,
         Call (Resume 70000), Render, Call (Pause 100000)])
   \<and> spec_run (calls (take 3
        [Call (Start 1000), Render, Call (Pause 61000), Render, Call (Pause 62000), Render,
         Call (Resume 70000), Render, Call (Pause 100000)]))
        = (Paused, [(1000, 61000)])
   \<and> accumulatedMs_m (run_m (startup Map.empty) (take 3
        [Call (Start 1000), Render, Call (Pause 61000), Render, Call (Pause 62000), Render,
         Call (Resume 70000), Render, Call (Pause 100000)])) = Some 60000
   \<and> spec_run (calls (take 9
        [Call (Start 1000), Render, Call (Pause 61000), Render, Call (Pause 62000), Render,
         Call (Resume 70000), Render, Call (Pause 100000)]))
        = (Paused, [(1000, 61000), (70000, 100000)])
   \<and> accumulatedMs_m (run_m (startup Map.empty) (take 9
        [Call (Start 1000), Render, Call (Pause 61000), Render, Call (Pause 62000), Render,
         Call (Resume 70000), Render, Call (Pause 100000)])) = Some 90000"
  using accumulated_is_segment_total[of "startup Map.empty"
      "[Call (Start 1000), Render, Call (Pause 61000), Render, Call (Pause 62000), Render,
         Call (Resume 70000), Render, Call (Pause 100000)]" 3]
    accumulated_is_segment_total[of "startup Map.empty"
      "[Call (Start 1000), Render, Call (Pause 61000), Render, Call (Pause 62000), Render,
         Call (Resume 70000), Render, Call (Pause 100000)]" 9]
  by (simp add: startup_eq spec_run_def segment_total_def startMonoMs_m_def getNumber_def)

text \<open>
  A resume called while running: the session runs from 0 to 3000 and the lifecycle has one
  segment of 3000 ms, but the second call moved the anchor to 1000 and the pause stores 2000.
  A pause called twice from the closure of one render: the lifecycle has one segment of
  60000 ms, and the store holds 121000.
\<close>

theorem lost_segment_counterexample:
  "spec_run (calls [Call (Start 0), Render, Call (Resume 1000), Render, Call (Pause 3000)])
      = (Paused, [(0, 3000)])
   \<and> segment_total (snd (spec_run
        (calls [Call (Start 0), Render, Call (Resume 1000), Render, Call (Pause 3000)]))) = 3000
   \<and> accumulatedMs_m (run_m (startup Map.empty)
        [Call (Start 0), Render, Call (Resume 1000), Render, Call (Pause 3000)]) = Some 2000
   \<and> spec_run (calls [Call (Start 1000), Render, Call (Pause 61000), Call (Pause 62000)])
      = (Paused, [(1000, 61000)])
   \<and> segment_total (snd (spec_run
        (calls [Call (Start 1000), Render, Call (Pause 61000), Call (Pause 62000)]))) = 60000
   \<and> accumulatedMs_m (run_m (startup Map.empty)
        [Call (Start 1000), Render, Call (Pause 61000), Call (Pause 62000)]) = Some 121000"
  by (simp add: spec_run_def segment_total_def run_m_def startup_eq startTimer_m_def
      stopTimer_m_def continueTraining_m_def store_defs Let_def)

subsection \<open>The store across a restart\<close>

text \<open>
  Claim C7, as the code has it.  Starting a session writes \<open>accumulatedMs\<close> and
  \<open>startMonoMs\<close> to the store.  On app start the store is emptied, whatever it holds:
  absent, unreadable and valid values alike leave the app idle over an empty store, with both
  values undefined.  A session in progress is not taken up again after a restart.
\<close>

theorem startup_clears_store:
  "startup store = \<lparr> isTimerActive_m = False, trainingDuration_m = 1800, showConfetti_m = False,
       isRunning_m = False, durationMs_m = 1800000, storage = Map.empty \<rparr>
   \<and> accumulatedMs_m (startup store) = None
   \<and> startMonoMs_m (startup store) = None
   \<and> storage (startTimer_m st now) ''accumulatedMs'' = Some (Num 0)
   \<and> storage (startTimer_m st now) ''startMonoMs'' = Some (Num now)"
  by (simp add: startup_def onAppStart_def initialRender_def clearAll_def startTimer_m_def store_defs)

text \<open>
  A store holding the two values of a session in progress: after app start neither is
  there and the app is idle.
\<close>

theorem restart_counterexample:
  "getNumber stored_session ''accumulatedMs'' = Some 5000
   \<and> getNumber stored_session ''startMonoMs'' = Some 1000
   \<and> accumulatedMs_m (startup stored_session) = None
   \<and> startMonoMs_m (startup stored_session) = None
   \<and> \<not> isRunning_m (startup stored_session)
   \<and> \<not> isTimerActive_m (startup stored_session)"
  by (simp add: stored_session_def startup_eq store_defs)

section \<open>Completion, in both versions\<close>

lemma tick_completing:
  assumes "isTimerActive st" and "\<not> falsy (startTime st)"
    and "trainingDuration st \<le> totalElapsedSeconds st now"
  shows "tick st now =
      (st\<lparr> isTimerActive := False, timeoutRef := None, startTime := None, pausedTime := 0,
           pauseStartTime := None, timeRemaining := trainingDuration st, lastTickRef := None,
           showConfetti := True \<rparr>,
       [ScheduleNotification (TrainingComplete (trainingDuration st div 60))])"
  using assms by (simp add: tick_def handleTimerComplete_def Let_def max_def)

lemma tick_inactive: "\<not> isTimerActive st \<Longrightarrow> tick st now = (st, [])"
  by (simp add: tick_def)

text \<open>
  Claim C2, as the code has it.  In the scheduler version the tick at which the whole seconds
  elapsed reach the training duration sends the completion notification once, clears the
  pending timeout and resets the timing state: \<open>timeRemaining\<close> is back at the training
  duration, \<open>pausedTime\<close> at 0 and \<open>startTime\<close> at \<open>null\<close>; a later tick finds the timer
  inactive and does nothing.  In the render-synchronised version the frame at which the live
  elapsed value reaches the duration sets the base and the rendered value of the display to
  exactly the duration, turns its running flag off and schedules \<open>onDone\<close>; \<open>onDone\<close>
  leaves the store, and with it the stored \<open>accumulatedMs\<close> and \<open>startMonoMs\<close>, as they
  were.
\<close>

theorem completion_transition:
  "(isTimerActive st \<and> \<not> falsy (startTime st) \<and> trainingDuration st \<le> totalElapsedSeconds st now
      \<longrightarrow> tick st now =
            (st\<lparr> isTimerActive := False, timeoutRef := None, startTime := None, pausedTime := 0,
                 pauseStartTime := None, timeRemaining := trainingDuration st, lastTickRef := None,
                 showConfetti := True \<rparr>,
             [ScheduleNotification (TrainingComplete (trainingDuration st div 60))])
          \<and> tick (fst (tick st now)) later = (fst (tick st now), []))
   \<and> (runningSV sv \<noteq> 0 \<and> durationSV sv \<le> liveElapsed sv t
      \<longrightarrow> frameCallback done sv t =
            (sv\<lparr> baseElapsedSV := durationSV sv, renderElapsedSV := durationSV sv, runningSV := 0 \<rparr>,
             (case done of None \<Rightarrow> [] | Some cb \<Rightarrow> [ScheduleOnRN cb])))
   \<and> storage (onDone_m m) = storage m
   \<and> accumulatedMs_m (onDone_m m) = accumulatedMs_m m
   \<and> startMonoMs_m (onDone_m m) = startMonoMs_m m"
proof (intro conjI impI)
  assume a: "isTimerActive st \<and> \<not> falsy (startTime st) \<and> trainingDuration st \<le> totalElapsedSeconds st now"
  then show c: "tick st now =
            (st\<lparr> isTimerActive := False, timeoutRef := None, startTime := None, pausedTime := 0,
                 pauseStartTime := None, timeRemaining := trainingDuration st, lastTickRef := None,
                 showConfetti := True \<rparr>,
             [ScheduleNotification (TrainingComplete (trainingDuration st div 60))])"
    by (simp add: tick_completing)
  have "\<not> isTimerActive (fst (tick st now))" by (simp add: c)
  then show "tick (fst (tick st now)) later = (fst (tick st now), [])"
    by (rule tick_inactive)
next
  assume "runningSV sv \<noteq> 0 \<and> durationSV sv \<le> liveElapsed sv t"
  then show "frameCallback done sv t =
            (sv\<lparr> baseElapsedSV := durationSV sv, renderElapsedSV := durationSV sv, runningSV := 0 \<rparr>,
             (case done of None \<Rightarrow> [] | Some cb \<Rightarrow> [ScheduleOnRN cb]))"
    by (simp add: frame_reaching)
next
  show "storage (onDone_m m) = storage m" by (simp add: onDone_m_def)
  show "accumulatedMs_m (onDone_m m) = accumulatedMs_m m"
    by (simp add: onDone_m_def accumulatedMs_m_def)
  show "startMonoMs_m (onDone_m m) = startMonoMs_m m"
    by (simp add: onDone_m_def startMonoMs_m_def)
qed

text \<open>
  The thirty-minute scheduler session at its 1800th second, and the display of the
  thirty-minute session started at 1000 at the frame 1801000.5.
\<close>

theorem completion_transition_witness:
  "isTimerActive session30 \<and> \<not> falsy (startTime session30)
   \<and> trainingDuration session30 \<le> totalElapsedSeconds session30 6800000
   \<and> snd (tick session30 6800000) = [ScheduleNotification (TrainingComplete 30)]
   \<and> timeoutRef (fst (tick session30 6800000)) = None
   \<and> tick (fst (tick session30 6800000)) 6801000 = (fst (tick session30 6800000), [])
   \<and> runningSV running_sv \<noteq> 0 \<and> durationSV running_sv \<le> liveElapsed running_sv 1801000.5
   \<and> frameCallback (Some OnDone) running_sv 1801000.5 =
        (running_sv\<lparr> baseElapsedSV := 1800000, renderElapsedSV := 1800000, runningSV := 0 \<rparr>,
         [ScheduleOnRN OnDone])"
  using completion_transition[of session30 6800000 6801000 running_sv "1801000.5" "Some OnDone" running_m]
  by (simp add: session30_eq app_init_def falsy_def totalElapsedSeconds_def totalElapsedMs_def
      running_sv_eq liveElapsed_def tick_inactive)

text \<open>
  After completion no stored elapsed value equals the duration.  In the render-synchronised
  version the display is clamped to 1800000 while the app still stores \<open>accumulatedMs = 0\<close>
  and the anchor 1000; in the scheduler version the completing tick leaves 1800 seconds
  remaining of 1800, that is 0 elapsed.
\<close>

theorem completion_counterexample:
  "frameCallback (onDone (timerDisplayProps running_m)) running_sv 1801000.5 =
        (running_sv\<lparr> baseElapsedSV := 1800000, renderElapsedSV := 1800000, runningSV := 0 \<rparr>,
         [ScheduleOnRN OnDone])
   \<and> durationMs_m (onDone_m running_m) = 1800000
   \<and> accumulatedMs_m (onDone_m running_m) = Some 0
   \<and> startMonoMs_m (onDone_m running_m) = Some 1000
   \<and> trainingDuration session30 = 1800
   \<and> totalElapsedSeconds session30 6800000 = 1800
   \<and> timeRemaining (fst (tick session30 6800000)) = 1800
   \<and> elapsedSeconds (fst (tick session30 6800000)) = 0"
proof -
  have f: "frameCallback (onDone (timerDisplayProps running_m)) running_sv 1801000.5 =
        (running_sv\<lparr> baseElapsedSV := 1800000, renderElapsedSV := 1800000, runningSV := 0 \<rparr>,
         [ScheduleOnRN OnDone])"
    by (simp add: timerDisplayProps_def running_sv_eq frameCallback_def liveElapsed_def Let_def)
  have m: "durationMs_m (onDone_m running_m) = 1800000"
    "accumulatedMs_m (onDone_m running_m) = Some 0"
    "startMonoMs_m (onDone_m running_m) = Some 1000"
    by (simp_all add: onDone_m_def running_m_eq store_defs)
  have s: "trainingDuration session30 = 1800" "totalElapsedSeconds session30 6800000 = 1800"
    by (simp_all add: session30_eq app_init_def totalElapsedSeconds_def totalElapsedMs_def)
  have t: "timeRemaining (fst (tick session30 6800000)) = 1800"
    "elapsedSeconds (fst (tick session30 6800000)) = 0"
    by (simp_all add: tick_def handleTimerComplete_def elapsedSeconds_def session30_eq
        app_init_def falsy_def totalElapsedSeconds_def totalElapsedMs_def Let_def)
  from f m s t show ?thesis by simp
qed

section \<open>The pause accounting of the scheduler version\<close>

text \<open>
  A pause at \<open>p\<close> followed by a resume at \<open>r\<close>, called from the render of the paused state,
  adds \<open>r - p\<close> to \<open>pausedTime\<close>: the time elapsed at the resume is the time elapsed at the
  pause.
\<close>

lemma paused_interval_excluded:
  "totalElapsedMs (continueTraining (stopTimer st p) (stopTimer st p) r) r = totalElapsedMs st p"
  by (simp add: totalElapsedMs_def continueTraining_def stopTimer_def Let_def)

text \<open>
  A second pause at \<open>p2\<close> before the resume moves the start of the pause: the time between
  the two pauses counts as elapsed.
\<close>

lemma repeated_pause_counted:
  "totalElapsedMs
     (continueTraining (stopTimer (stopTimer st p1) p2) (stopTimer (stopTimer st p1) p2) r) r
   = totalElapsedMs st p2"
  by (simp add: totalElapsedMs_def continueTraining_def stopTimer_def Let_def)

end
